theory Spec2Isabelle
  imports Main
begin

section \<open>Values shared by the project model\<close>

text \<open>
  The program is a TypeScript frontend. Its interfaces become records, its optional fields
  become \<open>option\<close>s, and the union types its functions test at run time become datatypes.
  Four things of the JavaScript runtime are parameters, passed to the functions that
  call them: \<open>parseFloat\<close> (\<open>Number.parseFloat\<close>, with the number type \<open>'n\<close>),
  \<open>numberToJSON\<close> (the number that the text \<open>JSON.stringify\<close> writes for a number
  denotes: none for \<open>NaN\<close> and the two infinities, which are written as \<open>null\<close>, zero
  for negative zero, which is written as \<open>0\<close>, and the number itself otherwise),
  \<open>newDate\<close> (the constructor \<open>new Date(x)\<close>, with the type \<open>'d\<close> of \<open>Date\<close> objects)
  and \<open>toJSON\<close> (\<open>Date.prototype.toJSON\<close>, which gives no string for an invalid date).

  A time slot of a record holds either what the backend sent (a string) or, after the
  transformation for frontend use, a \<open>Date\<close> object.
\<close>

datatype 'd timeval = TimeWire string | TimeDate 'd

text \<open>JavaScript truthiness of an optional time slot: absent and the empty string are falsy.\<close>

fun truthy_time :: "'d timeval option \<Rightarrow> bool" where
  "truthy_time None = False"
| "truthy_time (Some (TimeWire s)) = (s \<noteq> [])"
| "truthy_time (Some (TimeDate d)) = True"

text \<open>
  The error object a rejected \<open>Fetch\<close> promise carries, and the outcome of a request:
  \<open>Inl\<close> is the rejection, \<open>Inr\<close> the parsed response.
\<close>

record JsonErrorMsg =
  error :: string

type_synonym 'a fetched = "JsonErrorMsg + 'a"

section \<open>Projects\<close>

text \<open>
  \<open>ProjectInfo\<close> as the interface declares it. The field \<open>_id\<close> is written \<open>p_id\<close> and
  \<open>notes\<close> is written \<open>notes_p\<close>. The notes are optional here because
  \<open>transformProjectForFrontendUse\<close> tests them against \<open>undefined\<close>.
\<close>

datatype ProjectStatus = Development | Submitted | Approved

record 'd ProjectInfo =
  p_id :: string
  name :: string
  description :: string
  owner :: string
  editors :: "string list"
  creation_time :: "'d timeval"
  edit_time :: "'d timeval option"
  status :: ProjectStatus
  approvers :: "string list option"
  approved_by :: "string list option"
  approved_time :: "'d timeval option"
  submitted_time :: "'d timeval option"
  submitter :: "string option"
  notes_p :: "string list option"

text \<open>The status predicates take an optional project: \<open>project?.status === ...\<close>.\<close>

definition isProjectSubmitted :: "'d ProjectInfo option \<Rightarrow> bool" where
  "isProjectSubmitted project =
     (case project of None \<Rightarrow> False | Some p \<Rightarrow> status p = Submitted)"

definition isProjectApproved :: "'d ProjectInfo option \<Rightarrow> bool" where
  "isProjectApproved project =
     (case project of None \<Rightarrow> False | Some p \<Rightarrow> status p = Approved)"

definition isProjectInDevelopment :: "'d ProjectInfo option \<Rightarrow> bool" where
  "isProjectInDevelopment project =
     (case project of None \<Rightarrow> False | Some p \<Rightarrow> status p = Development)"

text \<open>\<open>project.approvers?.includes(username)\<close>: an absent list includes nobody.\<close>

definition approvers_includes :: "'d ProjectInfo \<Rightarrow> string \<Rightarrow> bool" where
  "approvers_includes project username =
     (case approvers project of None \<Rightarrow> False | Some as \<Rightarrow> username \<in> set as)"

definition isUserAProjectApprover :: "'d ProjectInfo \<Rightarrow> string \<Rightarrow> bool" where
  "isUserAProjectApprover project username =
     (if isProjectSubmitted (Some project) then
        (if approvers_includes project username \<or> username = [] then True else False)
      else False)"

definition MASTER_PROJECT_NAME :: string where
  "MASTER_PROJECT_NAME = ''LCLS Machine Configuration Database''"

text \<open>\<open>if (project.t) { project.t = new Date(project.t) }\<close> on an optional time slot.\<close>

definition convert_time :: "('d timeval \<Rightarrow> 'd) \<Rightarrow> 'd timeval option \<Rightarrow> 'd timeval option" where
  "convert_time newDate t =
     (if truthy_time t then map_option (\<lambda>x. TimeDate (newDate x)) t else t)"

definition transformProjectForFrontendUse ::
  "('d timeval \<Rightarrow> 'd) \<Rightarrow> 'd ProjectInfo \<Rightarrow> 'd ProjectInfo" where
  "transformProjectForFrontendUse newDate project =
     project\<lparr>creation_time := TimeDate (newDate (creation_time project)),
             edit_time := convert_time newDate (edit_time project),
             submitted_time := convert_time newDate (submitted_time project),
             approved_time := convert_time newDate (approved_time project),
             notes_p := (case notes_p project of None \<Rightarrow> Some [] | Some ns \<Rightarrow> Some ns)\<rparr>"

text \<open>
  The loop of \<open>fetchAllProjectsInfo\<close> over the projects the backend returned; \<open>pArr\<close>
  is the array the loop pushes to. The function itself takes the outcome of the request
  to \<open>/ws/projects/\<close>.
\<close>

fun collect_projects :: "'d ProjectInfo list \<Rightarrow> 'd ProjectInfo list \<Rightarrow> 'd ProjectInfo list" where
  "collect_projects [] pArr = pArr"
| "collect_projects (p # ps) pArr =
     (if name p \<noteq> MASTER_PROJECT_NAME then collect_projects ps (pArr @ [p])
      else if isProjectApproved (Some p) then collect_projects ps (pArr @ [p])
      else collect_projects ps pArr)"

definition fetchAllProjectsInfo ::
  "('d timeval \<Rightarrow> 'd) \<Rightarrow> 'd ProjectInfo list fetched \<Rightarrow> 'd ProjectInfo list fetched" where
  "fetchAllProjectsInfo newDate response =
     (case response of
        Inl e \<Rightarrow> Inl e
      | Inr projects \<Rightarrow>
          Inr (map (transformProjectForFrontendUse newDate) (collect_projects projects [])))"

text \<open>
  \<open>fetchProjectApprovers(projectOwner?)\<close> takes the outcome of the request to
  \<open>/ws/approvers/\<close>. The optional argument is \<open>None\<close> when it is not supplied;
  \<open>if (projectOwner)\<close> holds for a supplied, non-empty string.
\<close>

definition fetchProjectApprovers :: "string list fetched \<Rightarrow> string option \<Rightarrow> string list fetched" where
  "fetchProjectApprovers response projectOwner =
     (case response of
        Inl e \<Rightarrow> Inl e
      | Inr all_approvers \<Rightarrow>
          (case projectOwner of
             None \<Rightarrow> Inr all_approvers
           | Some po \<Rightarrow>
               if po \<noteq> [] then Inr (filter (\<lambda>username. username \<noteq> po) all_approvers)
               else Inr all_approvers))"

section \<open>Project differences\<close>

text \<open>
  A value of a differing field is \<open>string | number\<close>. The backend's record of one
  difference carries the key \<open>"<fft_id>.<field_name>"\<close>.
\<close>

datatype 'n diffval = DiffStr string | DiffNum 'n

record 'n fftDiffBackend =
  diff :: bool
  key :: string
  my :: "'n diffval"
  ot :: "'n diffval"

text \<open>A thrown \<open>Error\<close> with its message.\<close>

datatype js_error = Error string

text \<open>The object \<open>{ id, field }\<close> that \<open>parseFftFieldsFromDiff\<close> returns.\<close>

record FftFields =
  id_of :: string
  field :: string

text \<open>
  \<open>String.prototype.split\<close> with a separator of one character and no limit, and
  \<open>Array.prototype.join\<close>. Splitting the empty string gives one empty piece.
\<close>

fun split_str :: "char \<Rightarrow> string \<Rightarrow> string list" where
  "split_str sep [] = [[]]"
| "split_str sep (c # cs) =
     (if c = sep then [] # split_str sep cs
      else (case split_str sep cs of [] \<Rightarrow> [[c]] | w # ws \<Rightarrow> (c # w) # ws))"

fun join_str :: "string \<Rightarrow> string list \<Rightarrow> string" where
  "join_str sep [] = []"
| "join_str sep [w] = w"
| "join_str sep (w # v # ws) = w @ sep @ join_str sep (v # ws)"

definition invalid_diff_key :: "string \<Rightarrow> js_error" where
  "invalid_diff_key k =
     Error (''Invalid diff key '' @ k @ '': diff key should consist of '' @
            [CHR 0x22] @ ''<fft_id>.<key>'' @ [CHR 0x22])"

text \<open>
  \<open>let [id, ...rest] = diff.key.split(".")\<close>, then \<open>rest.join(".")\<close>; an empty
  joined name is falsy and throws.
\<close>

definition parseFftFieldsFromDiff :: "'n fftDiffBackend \<Rightarrow> js_error + FftFields" where
  "parseFftFieldsFromDiff d =
     (case split_str (CHR ''.'') (key d) of
        [] \<Rightarrow> Inl (invalid_diff_key (key d))
      | i # rest \<Rightarrow>
          (let nameOfField = join_str ''.'' rest in
           if nameOfField = [] then Inl (invalid_diff_key (key d))
           else Inr \<lparr>id_of = i, field = nameOfField\<rparr>))"

text \<open>
  The specification's reading of a key, to compare the parser with: the part before the
  first dot, and everything after the first dot.
\<close>

definition before_first_dot :: "string \<Rightarrow> string" where
  "before_first_dot k = takeWhile (\<lambda>c. c \<noteq> CHR ''.'') k"

definition after_first_dot :: "string \<Rightarrow> string" where
  "after_first_dot k = drop 1 (dropWhile (\<lambda>c. c \<noteq> CHR ''.'') k)"

section \<open>Devices\<close>

text \<open>
  A numeric field of a device is declared \<open>number | undefined\<close>, but arrives from the
  backend as a number or as a string (the empty string when it has no value):
  \<open>numberOrDefault\<close> takes \<open>number | string | undefined\<close>. Its result,
  \<open>number | undefined\<close>, is an \<open>option\<close>; \<open>as_input\<close> reads such a result as a value
  of the wider type again, as the assignment \<open>d[k] = numberOrDefault(d[k], undefined)\<close> does.
\<close>

datatype 'n numval = Undefined | Str string | Num 'n

definition as_input :: "'n option \<Rightarrow> 'n numval" where
  "as_input r = (case r of None \<Rightarrow> Undefined | Some n \<Rightarrow> Num n)"

definition numberOrDefault :: "(string \<Rightarrow> 'n) \<Rightarrow> 'n numval \<Rightarrow> 'n option \<Rightarrow> 'n option" where
  "numberOrDefault parseFloat input defaultVal =
     (case input of
        Undefined \<Rightarrow> defaultVal
      | Str s \<Rightarrow> if s = [] then defaultVal else Some (parseFloat s)
      | Num n \<Rightarrow> Some n)"

text \<open>The class \<open>DeviceState\<close>; its field \<open>name\<close> is written \<open>state_name\<close>.\<close>

record DeviceState =
  state_name :: string
  sortOrder :: int
  backendEnumName :: string

definition Conceptual :: DeviceState where
  "Conceptual = \<lparr>state_name = ''Conceptual'', sortOrder = 0, backendEnumName = ''Conceptual''\<rparr>"

definition Planned :: DeviceState where
  "Planned = \<lparr>state_name = ''Planned'', sortOrder = 1, backendEnumName = ''Planned''\<rparr>"

definition ReadyForInstallation :: DeviceState where
  "ReadyForInstallation =
     \<lparr>state_name = ''Ready For Installation'', sortOrder = 2,
      backendEnumName = ''ReadyForInstallation''\<rparr>"

definition Installed :: DeviceState where
  "Installed = \<lparr>state_name = ''Installed'', sortOrder = 3, backendEnumName = ''Installed''\<rparr>"

definition Commisioned :: DeviceState where
  "Commisioned =
     \<lparr>state_name = ''Commissioned'', sortOrder = 4, backendEnumName = ''Commissioned''\<rparr>"

definition Operational :: DeviceState where
  "Operational =
     \<lparr>state_name = ''Operational'', sortOrder = 5, backendEnumName = ''Operational''\<rparr>"

definition NonOperational :: DeviceState where
  "NonOperational =
     \<lparr>state_name = ''Non-operational'', sortOrder = 6, backendEnumName = ''NonOperational''\<rparr>"

definition Decommissioned :: DeviceState where
  "Decommissioned =
     \<lparr>state_name = ''De-commissioned'', sortOrder = 7, backendEnumName = ''Decommissioned''\<rparr>"

definition Removed :: DeviceState where
  "Removed = \<lparr>state_name = ''Removed'', sortOrder = 8, backendEnumName = ''Removed''\<rparr>"

definition UnknownState :: DeviceState where
  "UnknownState = \<lparr>state_name = ''Unknown'', sortOrder = - 1, backendEnumName = ''Unknown''\<rparr>"

definition allStates :: "DeviceState list" where
  "allStates = [Conceptual, Planned, ReadyForInstallation, Installed, Commisioned,
                Operational, NonOperational, Decommissioned, Removed]"

text \<open>The loop of \<open>DeviceState.fromString\<close> over \<open>allStates\<close>.\<close>

fun find_state :: "DeviceState list \<Rightarrow> string \<Rightarrow> DeviceState" where
  "find_state [] st = UnknownState"
| "find_state (s # ss) st =
     (if state_name s = st \<or> backendEnumName s = st then s else find_state ss st)"

definition fromString :: "string \<Rightarrow> DeviceState" where
  "fromString st = find_state allStates st"

text \<open>
  The device interfaces. \<open>ChangeComment.id\<close> is written \<open>comment_id\<close>,
  \<open>ProjectDeviceDetails.id\<close> is written \<open>id_dev\<close>, and the fields of \<open>ProjectFFT\<close>
  are written \<open>fft_id\<close> (for \<open>_id\<close>), \<open>fft_fc\<close> and \<open>fft_fg\<close>. The discussion is optional
  because \<open>transformProjectDeviceDetails\<close> tests it before it loops over it.
\<close>

record 'd ChangeComment =
  comment_id :: string
  author :: string
  time :: "'d timeval"
  comment :: string

record ('n, 'd) deviceDetailFields =
  tc_part_no :: string
  comments :: string
  state :: string
  nom_ang_x :: "'n numval"
  nom_ang_y :: "'n numval"
  nom_ang_z :: "'n numval"
  nom_dim_x :: "'n numval"
  nom_dim_y :: "'n numval"
  nom_dim_z :: "'n numval"
  nom_loc_x :: "'n numval"
  nom_loc_y :: "'n numval"
  nom_loc_z :: "'n numval"
  ray_trace :: "'n numval"
  discussion :: "'d ChangeComment list option"

record ProjectFFT =
  fft_id :: string
  fft_fc :: string
  fft_fg :: string

record ('n, 'd) ProjectDeviceDetails = "('n, 'd) deviceDetailFields" +
  id_dev :: string
  fc :: string
  fg :: string

record ('n, 'd) ProjectDeviceDetailsBackend = "('n, 'd) deviceDetailFields" +
  fft :: ProjectFFT

text \<open>
  The keys of the numeric fields, \<open>(keyof deviceDetailFields)[]\<close>, with the reading
  \<open>d[k]\<close> and the assignment \<open>d[k] = v\<close> at such a key.
\<close>

datatype deviceNumericKey =
  Nom_ang_x | Nom_ang_y | Nom_ang_z
| Nom_dim_x | Nom_dim_y | Nom_dim_z
| Nom_loc_x | Nom_loc_y | Nom_loc_z
| Ray_trace

definition ProjectDevicePositionKeys :: "deviceNumericKey list" where
  "ProjectDevicePositionKeys =
     [Nom_ang_x, Nom_ang_y, Nom_ang_z,
      Nom_dim_x, Nom_dim_y, Nom_dim_z,
      Nom_loc_x, Nom_loc_y, Nom_loc_z]"

definition ProjectDeviceDetailsNumericKeys :: "deviceNumericKey list" where
  "ProjectDeviceDetailsNumericKeys = ProjectDevicePositionKeys @ [Ray_trace]"

fun get_field :: "deviceNumericKey \<Rightarrow> ('n, 'd, 'z) deviceDetailFields_scheme \<Rightarrow> 'n numval" where
  "get_field Nom_ang_x d = nom_ang_x d"
| "get_field Nom_ang_y d = nom_ang_y d"
| "get_field Nom_ang_z d = nom_ang_z d"
| "get_field Nom_dim_x d = nom_dim_x d"
| "get_field Nom_dim_y d = nom_dim_y d"
| "get_field Nom_dim_z d = nom_dim_z d"
| "get_field Nom_loc_x d = nom_loc_x d"
| "get_field Nom_loc_y d = nom_loc_y d"
| "get_field Nom_loc_z d = nom_loc_z d"
| "get_field Ray_trace d = ray_trace d"

fun set_field ::
  "deviceNumericKey \<Rightarrow> 'n numval \<Rightarrow> ('n, 'd, 'z) deviceDetailFields_scheme
     \<Rightarrow> ('n, 'd, 'z) deviceDetailFields_scheme" where
  "set_field Nom_ang_x v d = d\<lparr>nom_ang_x := v\<rparr>"
| "set_field Nom_ang_y v d = d\<lparr>nom_ang_y := v\<rparr>"
| "set_field Nom_ang_z v d = d\<lparr>nom_ang_z := v\<rparr>"
| "set_field Nom_dim_x v d = d\<lparr>nom_dim_x := v\<rparr>"
| "set_field Nom_dim_y v d = d\<lparr>nom_dim_y := v\<rparr>"
| "set_field Nom_dim_z v d = d\<lparr>nom_dim_z := v\<rparr>"
| "set_field Nom_loc_x v d = d\<lparr>nom_loc_x := v\<rparr>"
| "set_field Nom_loc_y v d = d\<lparr>nom_loc_y := v\<rparr>"
| "set_field Nom_loc_z v d = d\<lparr>nom_loc_z := v\<rparr>"
| "set_field Ray_trace v d = d\<lparr>ray_trace := v\<rparr>"

text \<open>
  \<open>for (let k of ProjectDeviceDetailsNumericKeys) { d[k] = numberOrDefault(d[k], undefined) }\<close>
\<close>

fun normalize_keys ::
  "(string \<Rightarrow> 'n) \<Rightarrow> deviceNumericKey list \<Rightarrow> ('n, 'd, 'z) deviceDetailFields_scheme
     \<Rightarrow> ('n, 'd, 'z) deviceDetailFields_scheme" where
  "normalize_keys parseFloat [] d = d"
| "normalize_keys parseFloat (k # ks) d =
     normalize_keys parseFloat ks
       (set_field k (as_input (numberOrDefault parseFloat (get_field k d) None)) d)"

text \<open>\<open>if (device.discussion) { for (let comment of device.discussion) { ... } }\<close>\<close>

definition convert_discussion ::
  "('d timeval \<Rightarrow> 'd) \<Rightarrow> 'd ChangeComment list option \<Rightarrow> 'd ChangeComment list option" where
  "convert_discussion newDate disc =
     (case disc of
        None \<Rightarrow> None
      | Some cs \<Rightarrow> Some (map (\<lambda>c. c\<lparr>time := TimeDate (newDate (time c))\<rparr>) cs))"

text \<open>
  \<open>transformProjectDeviceDetails\<close> changes the device in place; here it returns the
  changed device. It works on every record that extends \<open>deviceDetailFields\<close>.
\<close>

definition transformProjectDeviceDetails ::
  "(string \<Rightarrow> 'n) \<Rightarrow> ('d timeval \<Rightarrow> 'd) \<Rightarrow> ('n, 'd, 'z) deviceDetailFields_scheme
     \<Rightarrow> ('n, 'd, 'z) deviceDetailFields_scheme" where
  "transformProjectDeviceDetails parseFloat newDate device =
     (let d1 = device\<lparr>state := state_name (fromString (state device))\<rparr>;
          d2 = normalize_keys parseFloat ProjectDeviceDetailsNumericKeys d1
      in d2\<lparr>discussion := convert_discussion newDate (discussion d2)\<rparr>)"

text \<open>\<open>const { fft, ...copiedFields } = details\<close>, then the flattened identifiers.\<close>

definition deviceDetailsBackendToFrontend ::
  "(string \<Rightarrow> 'n) \<Rightarrow> ('d timeval \<Rightarrow> 'd) \<Rightarrow> ('n, 'd) ProjectDeviceDetailsBackend
     \<Rightarrow> ('n, 'd) ProjectDeviceDetails" where
  "deviceDetailsBackendToFrontend parseFloat newDate details =
     (let data =
        \<lparr>tc_part_no = tc_part_no details, comments = comments details, state = state details,
         nom_ang_x = nom_ang_x details, nom_ang_y = nom_ang_y details,
         nom_ang_z = nom_ang_z details,
         nom_dim_x = nom_dim_x details, nom_dim_y = nom_dim_y details,
         nom_dim_z = nom_dim_z details,
         nom_loc_x = nom_loc_x details, nom_loc_y = nom_loc_y details,
         nom_loc_z = nom_loc_z details,
         ray_trace = ray_trace details, discussion = discussion details,
         id_dev = fft_id (fft details), fc = fft_fc (fft details), fg = fft_fg (fft details)\<rparr>
      in transformProjectDeviceDetails parseFloat newDate data)"

text \<open>
  \<open>fetchProjectFfts\<close> takes the outcome of the request for the devices of a project, an
  object that maps identifiers to devices; \<open>Object.values\<close> gives its values in order.
\<close>

definition fetchProjectFfts ::
  "(string \<Rightarrow> 'n) \<Rightarrow> ('d timeval \<Rightarrow> 'd)
     \<Rightarrow> (string \<times> ('n, 'd) ProjectDeviceDetailsBackend) list fetched
     \<Rightarrow> ('n, 'd) ProjectDeviceDetails list fetched" where
  "fetchProjectFfts parseFloat newDate response =
     (case response of
        Inl e \<Rightarrow> Inl e
      | Inr data \<Rightarrow>
          (let devices = map snd data
           in Inr (map (deviceDetailsBackendToFrontend parseFloat newDate) devices)))"

section \<open>Devices as JavaScript objects, and what is written to the wire\<close>

text \<open>
  \<open>syncDeviceUserChanges\<close> takes a \<open>Record<string, any>\<close> and writes it with
  \<open>JSON.stringify\<close>. To pass a device through it, the device is read as the JavaScript
  object it is: a map from property names to values. Property order is not kept.
\<close>

datatype ('n, 'd) jsval =
  JUndefined | JNull | JNum 'n | JStr string | JDate 'd
| JArr "('n, 'd) jsval list"
| JObj "string \<Rightarrow> ('n, 'd) jsval option"

type_synonym ('n, 'd) jsobject = "string \<Rightarrow> ('n, 'd) jsval option"

fun numval_js :: "'n numval \<Rightarrow> ('n, 'd) jsval" where
  "numval_js Undefined = JUndefined"
| "numval_js (Str s) = JStr s"
| "numval_js (Num n) = JNum n"

fun time_js :: "'d timeval \<Rightarrow> ('n, 'd) jsval" where
  "time_js (TimeWire s) = JStr s"
| "time_js (TimeDate d) = JDate d"

definition comment_js :: "'d ChangeComment \<Rightarrow> ('n, 'd) jsval" where
  "comment_js c =
     JObj [''id'' \<mapsto> JStr (comment_id c), ''author'' \<mapsto> JStr (author c),
           ''time'' \<mapsto> time_js (time c), ''comment'' \<mapsto> JStr (comment c)]"

fun key_name :: "deviceNumericKey \<Rightarrow> string" where
  "key_name Nom_ang_x = ''nom_ang_x''"
| "key_name Nom_ang_y = ''nom_ang_y''"
| "key_name Nom_ang_z = ''nom_ang_z''"
| "key_name Nom_dim_x = ''nom_dim_x''"
| "key_name Nom_dim_y = ''nom_dim_y''"
| "key_name Nom_dim_z = ''nom_dim_z''"
| "key_name Nom_loc_x = ''nom_loc_x''"
| "key_name Nom_loc_y = ''nom_loc_y''"
| "key_name Nom_loc_z = ''nom_loc_z''"
| "key_name Ray_trace = ''ray_trace''"

definition with_discussion ::
  "'d ChangeComment list option \<Rightarrow> ('n, 'd) jsobject \<Rightarrow> ('n, 'd) jsobject" where
  "with_discussion disc m =
     (case disc of None \<Rightarrow> m | Some cs \<Rightarrow> m(''discussion'' \<mapsto> JArr (map comment_js cs)))"

text \<open>
  The wire record: the device as the backend sent it, with the nested \<open>fft\<close>. JSON has no
  \<open>undefined\<close>, so a numeric field without a value is not a property of the record.
\<close>

definition wire_numeric ::
  "('n, 'd, 'z) deviceDetailFields_scheme \<Rightarrow> deviceNumericKey \<Rightarrow> ('n, 'd) jsobject
     \<Rightarrow> ('n, 'd) jsobject" where
  "wire_numeric w k m =
     (case get_field k w of Undefined \<Rightarrow> m | v \<Rightarrow> m(key_name k \<mapsto> numval_js v))"

definition wire_object :: "('n, 'd) ProjectDeviceDetailsBackend \<Rightarrow> ('n, 'd) jsobject" where
  "wire_object w =
     fold (wire_numeric w) ProjectDeviceDetailsNumericKeys
       (with_discussion (discussion w)
          [''fft'' \<mapsto> JObj [''_id'' \<mapsto> JStr (fft_id (fft w)), ''fc'' \<mapsto> JStr (fft_fc (fft w)),
                            ''fg'' \<mapsto> JStr (fft_fg (fft w))],
           ''tc_part_no'' \<mapsto> JStr (tc_part_no w),
           ''comments'' \<mapsto> JStr (comments w),
           ''state'' \<mapsto> JStr (state w)])"

text \<open>
  The object \<open>deviceDetailsBackendToFrontend\<close> returns. Its loop assigns \<open>d[k]\<close> for
  every numeric key, so each of them is a property, with the value \<open>undefined\<close> where the
  field has no value.
\<close>

definition frontend_object :: "('n, 'd) ProjectDeviceDetails \<Rightarrow> ('n, 'd) jsobject" where
  "frontend_object d =
     fold (\<lambda>k m. m(key_name k \<mapsto> numval_js (get_field k d))) ProjectDeviceDetailsNumericKeys
       (with_discussion (discussion d)
          [''tc_part_no'' \<mapsto> JStr (tc_part_no d),
           ''comments'' \<mapsto> JStr (comments d),
           ''state'' \<mapsto> JStr (state d),
           ''id'' \<mapsto> JStr (id_dev d), ''fc'' \<mapsto> JStr (fc d), ''fg'' \<mapsto> JStr (fg d)])"

text \<open>
  What \<open>JSON.stringify(changes, (k, v) => v === undefined ? '' : v)\<close> writes for a value,
  as the tree of JSON values that its text denotes. A date is replaced by its
  \<open>toJSON()\<close> before the replacer sees it; the replacer is applied to every property of
  every nested object and to every element of every array. A number that is not finite
  (\<open>NaN\<close>, an infinity) is written as \<open>null\<close>, as is an invalid date.
\<close>

primrec written ::
  "('d \<Rightarrow> string option) \<Rightarrow> ('n \<Rightarrow> 'n option) \<Rightarrow> ('n, 'd) jsval \<Rightarrow> ('n, 'd) jsval" where
  "written toJSON numberToJSON JUndefined = JStr []"
| "written toJSON numberToJSON JNull = JNull"
| "written toJSON numberToJSON (JNum n) =
     (case numberToJSON n of None \<Rightarrow> JNull | Some m \<Rightarrow> JNum m)"
| "written toJSON numberToJSON (JStr s) = JStr s"
| "written toJSON numberToJSON (JDate d) = (case toJSON d of None \<Rightarrow> JNull | Some s \<Rightarrow> JStr s)"
| "written toJSON numberToJSON (JArr vs) = JArr (map (written toJSON numberToJSON) vs)"
| "written toJSON numberToJSON (JObj m) = JObj (map_option (written toJSON numberToJSON) \<circ> m)"

text \<open>The body \<open>syncDeviceUserChanges\<close> posts for the object \<open>changes\<close>.\<close>

definition sync_body ::
  "('d \<Rightarrow> string option) \<Rightarrow> ('n \<Rightarrow> 'n option) \<Rightarrow> ('n, 'd) jsobject
     \<Rightarrow> ('n, 'd) jsobject" where
  "sync_body toJSON numberToJSON changes = map_option (written toJSON numberToJSON) \<circ> changes"

text \<open>A wire record, deserialized and written again.\<close>

definition round_trip ::
  "(string \<Rightarrow> 'n) \<Rightarrow> ('d timeval \<Rightarrow> 'd) \<Rightarrow> ('d \<Rightarrow> string option) \<Rightarrow> ('n \<Rightarrow> 'n option)
     \<Rightarrow> ('n, 'd) ProjectDeviceDetailsBackend \<Rightarrow> ('n, 'd) jsobject" where
  "round_trip parseFloat newDate toJSON numberToJSON w =
     sync_body toJSON numberToJSON
       (frontend_object (deviceDetailsBackendToFrontend parseFloat newDate w))"

section \<open>Project page: loading the device list\<close>

text \<open>
  The state of the project page that loading and displaying the devices reads and
  writes: the loading flag, the error message, the loaded devices, the displayed
  devices, the three filters and the sort order (\<open>sortedByColumn.column\<close> and
  \<open>sortedByColumn.sortDesc\<close>). The other \<open>useState\<close> slots of the page (the project, the
  dialogs, the edited device and so on) are the extension of the record.
\<close>

record ('n, 'd) page_state =
  isLoading :: bool
  fftDataLoadingError :: string
  fftData :: "('n, 'd) ProjectDeviceDetails list"
  fftDataDisplay :: "('n, 'd) ProjectDeviceDetails list"
  fcFilter :: string
  fgFilter :: string
  stateFilter :: string
  sortedByColumn_column :: string
  sortedByColumn_sortDesc :: bool

text \<open>
  \<open>loadFFTData\<close> takes the outcome of the request and gives the state after the calls
  of its promise chain, together with the value the promise resolves to.
\<close>

definition loadFFTData ::
  "(string \<Rightarrow> 'n) \<Rightarrow> ('d timeval \<Rightarrow> 'd)
     \<Rightarrow> (string \<times> ('n, 'd) ProjectDeviceDetailsBackend) list fetched
     \<Rightarrow> ('n, 'd, 'z) page_state_scheme
     \<Rightarrow> ('n, 'd, 'z) page_state_scheme \<times> ('n, 'd) ProjectDeviceDetails list option" where
  "loadFFTData parseFloat newDate response st =
     (let st1 = st\<lparr>isLoading := True\<rparr>;
          st2 = st1\<lparr>fftDataLoadingError := []\<rparr>;
          (st3, result) =
            (case fetchProjectFfts parseFloat newDate response of
               Inr devices \<Rightarrow> (st2\<lparr>fftData := devices\<rparr>, Some devices)
             | Inl e \<Rightarrow>
                 (let msg = ''Failed to load device data: '' @ error e;
                      st' = st2\<lparr>fftData := []\<rparr>
                  in (st'\<lparr>fftDataLoadingError := msg\<rparr>, None)))
      in (st3\<lparr>isLoading := False\<rparr>, result))"

text \<open>
  \<open>sortDeviceDataByColumn\<close> returns at once on an empty array and otherwise sorts with
  the comparator of the column. The comparators are built from \<open>sortString\<close> and
  \<open>sortNumber\<close> of \<open>sort_utils\<close>, which is not among the sources: \<open>array_sort\<close>, a
  parameter, is \<open>data.sort(...)\<close> for a column and a direction.
\<close>

definition sortDeviceDataByColumn ::
  "(string \<Rightarrow> bool \<Rightarrow> 'a list \<Rightarrow> 'a list) \<Rightarrow> 'a list \<Rightarrow> string \<Rightarrow> bool \<Rightarrow> 'a list" where
  "sortDeviceDataByColumn array_sort data col desc =
     (if length data = 0 then data else array_sort col desc data)"

text \<open>
  The effect of the page that depends on \<open>fftData\<close>, the filters and the sort order: it
  filters the loaded devices, sorts them and stores them as the displayed devices.
  Two more parameters: \<open>glob_test pattern text\<close> is
  \<open>createGlobMatchRegex(pattern).test(text)\<close> of \<open>glob_matcher\<close>, and \<open>fg_desc\<close> reads the
  field of that name, which the device interface at hand does not declare yet.
\<close>

definition apply_table_filters ::
  "(string \<Rightarrow> string \<Rightarrow> bool) \<Rightarrow> (('n, 'd) ProjectDeviceDetails \<Rightarrow> string)
     \<Rightarrow> (string \<Rightarrow> bool \<Rightarrow> ('n, 'd) ProjectDeviceDetails list \<Rightarrow> ('n, 'd) ProjectDeviceDetails list)
     \<Rightarrow> ('n, 'd, 'z) page_state_scheme \<Rightarrow> ('n, 'd, 'z) page_state_scheme" where
  "apply_table_filters glob_test fg_desc array_sort st =
     (let filteredFftData =
        filter (\<lambda>d. if stateFilter st \<noteq> [] then state d = stateFilter st else True)
          (filter (\<lambda>d. if fgFilter st \<noteq> [] then glob_test (fgFilter st) (fg_desc d) else True)
             (filter (\<lambda>d. if fcFilter st \<noteq> [] then glob_test (fcFilter st) (fc d) else True)
                (fftData st)))
      in st\<lparr>fftDataDisplay :=
               sortDeviceDataByColumn array_sort filteredFftData
                 (sortedByColumn_column st) (sortedByColumn_sortDesc st)\<rparr>)"

text \<open>
  The page after a load has settled. \<open>setFftData\<close> stores a new array on either branch
  of \<open>loadFFTData\<close>, so the effect above always runs after it.
\<close>

definition loadFFTData_settled ::
  "(string \<Rightarrow> 'n) \<Rightarrow> ('d timeval \<Rightarrow> 'd)
     \<Rightarrow> (string \<Rightarrow> string \<Rightarrow> bool) \<Rightarrow> (('n, 'd) ProjectDeviceDetails \<Rightarrow> string)
     \<Rightarrow> (string \<Rightarrow> bool \<Rightarrow> ('n, 'd) ProjectDeviceDetails list \<Rightarrow> ('n, 'd) ProjectDeviceDetails list)
     \<Rightarrow> (string \<times> ('n, 'd) ProjectDeviceDetailsBackend) list fetched
     \<Rightarrow> ('n, 'd, 'z) page_state_scheme
     \<Rightarrow> ('n, 'd, 'z) page_state_scheme \<times> ('n, 'd) ProjectDeviceDetails list option" where
  "loadFFTData_settled parseFloat newDate glob_test fg_desc array_sort response st =
     (let (st', result) = loadFFTData parseFloat newDate response st
      in (apply_table_filters glob_test fg_desc array_sort st', result))"

section \<open>The submit-for-approval page\<close>

text \<open>
  Modelled from the spec: the type \<open>ProjectFftDiff\<close> is declared in the module
  \<open>project_diff_model\<close>, which is not among the sources. The page reads its field \<open>a\<close>,
  the project whose differences with the master project were computed (project A of a
  diff); the field is written \<open>diff_a\<close>, and the lists of differences are left out.
\<close>

record 'd ProjectFftDiff =
  diff_a :: "'d ProjectInfo option"

text \<open>
  The state of the component \<open>SubmitProjectForApproval\<close>, one field for each
  \<open>useState\<close>; the field \<open>diff\<close> is written \<open>diff_s\<close>.
\<close>

record 'd submit_state =
  loading :: bool
  loadError :: string
  project :: "'d ProjectInfo option"
  diff_s :: "'d ProjectFftDiff option"
  loggedInUser :: string
  allApprovers :: "string list"
  selectedApprovers :: "string list"
  allEditors :: "string list"
  selectedEditors :: "string list"
  superApprovers :: "string list"
  submittingForm :: bool
  submitError :: string
  editEditorsError :: string

text \<open>
  What the component renders, as far as it can be acted on: a \<open>Button\<close> with its text,
  its \<open>loading\<close> and \<open>disabled\<close> properties and the handler of \<open>onClick\<close>; a link; the
  notice shown instead of the controls; an error line. Tables and selectors are left out.
\<close>

datatype handler = SubmitButtonClicked | EditButtonClicked

datatype element =
  Button string bool bool handler
| AnchorButton string string
| NonIdealState string string
| ErrorText string

datatype view = LoadingSpinner | ErrorDisplay string | NoDataFound | Page "element list"

text \<open>
  The requests the handlers send: \<open>submitForApproval(projectId, selectedEditors,
  selectedApprovers)\<close> and \<open>editProject(projectId, {editors})\<close>, with the arguments in
  the order of the call.
\<close>

datatype request =
  SubmitForApproval string "string list" "string list"
| EditProject string "string list"

fun button_disabled :: "element \<Rightarrow> bool" where
  "button_disabled (Button text is_loading is_disabled h) = is_disabled"
| "button_disabled e = False"

fun button_handler :: "element \<Rightarrow> handler option" where
  "button_handler (Button text is_loading is_disabled h) = Some h"
| "button_handler e = None"

text \<open>\<open>diff?.a\<close>\<close>

definition diff_project :: "'d submit_state \<Rightarrow> 'd ProjectInfo option" where
  "diff_project st = (case diff_s st of None \<Rightarrow> None | Some d \<Rightarrow> diff_a d)"

definition userCanSubmitTheProject :: "'d submit_state \<Rightarrow> bool" where
  "userCanSubmitTheProject st =
     (case diff_project st of
        None \<Rightarrow> False
      | Some a \<Rightarrow>
          if owner a = loggedInUser st then True
          else if loggedInUser st \<in> set (editors a) then True
          else False)"

definition disableEditActions :: "'d submit_state \<Rightarrow> bool" where
  "disableEditActions st =
     (if userCanSubmitTheProject st then False
      else \<not> isProjectInDevelopment (project st) \<or> \<not> userCanSubmitTheProject st)"

text \<open>The row of the editors with its button, and the last row of the page.\<close>

definition editors_row :: "'d submit_state \<Rightarrow> element list" where
  "editors_row st =
     [Button ''Update Editors'' (submittingForm st) (disableEditActions st) EditButtonClicked]
     @ (if editEditorsError st \<noteq> [] then [ErrorText (''ERROR: '' @ editEditorsError st)] else [])"

definition submit_row :: "'d submit_state \<Rightarrow> element list" where
  "submit_row st =
     (if userCanSubmitTheProject st then
        (if isProjectInDevelopment (project st) then
           [Button ''Submit for Approval'' (submittingForm st)
              (length (selectedApprovers st) = 0) SubmitButtonClicked]
         else [])
        @ (if isProjectSubmitted (project st) then
             [Button ''Save Changes'' (submittingForm st)
                (length (selectedApprovers st) = 0) SubmitButtonClicked,
              AnchorButton
                (''/projects/'' @ (case diff_project st of None \<Rightarrow> [] | Some a \<Rightarrow> p_id a)
                   @ ''/approval'')
                ''See Approval Page'']
           else [])
        @ (if submitError st \<noteq> [] then [ErrorText (''ERROR: '' @ submitError st)] else [])
      else
        [NonIdealState ''No Permissions''
           ''You don't have permissions to submit a project for approval''])"

definition SubmitProjectForApproval :: "'d submit_state \<Rightarrow> view" where
  "SubmitProjectForApproval st =
     (if loading st then LoadingSpinner
      else if loadError st \<noteq> [] then ErrorDisplay (loadError st)
      else if project st = None \<or> diff_s st = None then NoDataFound
      else Page (editors_row st @ submit_row st))"

fun view_elements :: "view \<Rightarrow> element list" where
  "view_elements (Page es) = es"
| "view_elements v = []"

text \<open>
  The handlers give the state after their \<open>set...\<close> calls and the request they send,
  if any. The promise of the request is not followed further.
\<close>

definition submitButtonClicked ::
  "string \<Rightarrow> 'd submit_state \<Rightarrow> 'd submit_state \<times> request option" where
  "submitButtonClicked projectId st =
     (case project st of
        None \<Rightarrow> (st, None)
      | Some p \<Rightarrow>
          (st\<lparr>submittingForm := True, submitError := [], editEditorsError := []\<rparr>,
           Some (SubmitForApproval projectId (selectedEditors st) (selectedApprovers st))))"

definition editButtonClicked ::
  "string \<Rightarrow> 'd submit_state \<Rightarrow> 'd submit_state \<times> request option" where
  "editButtonClicked projectId st =
     (case project st of
        None \<Rightarrow> (st, None)
      | Some p \<Rightarrow>
          (st\<lparr>submittingForm := True, editEditorsError := []\<rparr>,
           Some (EditProject projectId (selectedEditors st))))"

text \<open>
  A click on a rendered element in the state it was rendered from. A button whose
  \<open>disabled\<close> property is set does not run its handler. The button library also ignores
  clicks while \<open>loading\<close> is set; that is not used here, so every click the page can
  receive is a click of this function.
\<close>

definition click ::
  "string \<Rightarrow> element \<Rightarrow> 'd submit_state \<Rightarrow> 'd submit_state \<times> request option" where
  "click projectId e st =
     (if button_disabled e then (st, None)
      else (case button_handler e of
              None \<Rightarrow> (st, None)
            | Some SubmitButtonClicked \<Rightarrow> submitButtonClicked projectId st
            | Some EditButtonClicked \<Rightarrow> editButtonClicked projectId st))"


subsection \<open>The earlier revision of the page\<close>

text \<open>
  The earlier revision of the component has no editors and no check of the user. Its
  state fields carry the suffix \<open>_prev\<close>; its request is
  \<open>submitForApproval(projectId, selectedApprovers)\<close>, a pair here.
\<close>

record 'd submit_state_prev =
  loading_prev :: bool
  loadError_prev :: string
  project_prev :: "'d ProjectInfo option"
  diff_prev :: "'d ProjectFftDiff option"
  allApprovers_prev :: "string list"
  currentApprover_prev :: string
  selectedApprovers_prev :: "string list"
  superApprovers_prev :: "string list"
  submittingForm_prev :: bool
  submitError_prev :: string

definition submit_row_prev :: "'d submit_state_prev \<Rightarrow> element list" where
  "submit_row_prev st =
     (if isProjectInDevelopment (project_prev st) then
        [Button ''Submit for Approval'' (submittingForm_prev st)
           (length (selectedApprovers_prev st) = 0) SubmitButtonClicked]
      else [])
     @ (if submitError_prev st \<noteq> [] then [ErrorText (''ERROR: '' @ submitError_prev st)] else [])"

definition submitButtonClicked_prev ::
  "string \<Rightarrow> 'd submit_state_prev \<Rightarrow> 'd submit_state_prev \<times> (string \<times> string list) option" where
  "submitButtonClicked_prev projectId st =
     (case project_prev st of
        None \<Rightarrow> (st, None)
      | Some p \<Rightarrow>
          (st\<lparr>submittingForm_prev := True\<rparr>, Some (projectId, selectedApprovers_prev st)))"

definition click_prev ::
  "string \<Rightarrow> element \<Rightarrow> 'd submit_state_prev
     \<Rightarrow> 'd submit_state_prev \<times> (string \<times> string list) option" where
  "click_prev projectId e st =
     (if button_disabled e then (st, None)
      else (case button_handler e of
              Some SubmitButtonClicked \<Rightarrow> submitButtonClicked_prev projectId st
            | _ \<Rightarrow> (st, None)))"

section \<open>Example values\<close>

text \<open>
  Concrete inputs for the instances below. A number is an integer, negative zero, an
  infinity or \<open>NaN\<close> there, and a date is its string; \<open>example_parseFloat\<close> knows the
  one numeric string of the examples. The example device carries negative zero in
  \<open>nom_dim_y\<close> and an infinity in \<open>nom_dim_z\<close>, as a wire literal such as \<open>1e400\<close>
  gives.
\<close>

datatype example_number = Fin int | NegZero | PosInfinity | NaN

fun example_numberToJSON :: "example_number \<Rightarrow> example_number option" where
  "example_numberToJSON (Fin i) = Some (Fin i)"
| "example_numberToJSON NegZero = Some (Fin 0)"
| "example_numberToJSON PosInfinity = None"
| "example_numberToJSON NaN = None"

definition example_newDate :: "string timeval \<Rightarrow> string" where
  "example_newDate t = (case t of TimeWire s \<Rightarrow> s | TimeDate d \<Rightarrow> d)"

definition example_parseFloat :: "string \<Rightarrow> example_number" where
  "example_parseFloat s = (if s = ''12'' then Fin 12 else NaN)"

definition example_toJSON :: "string \<Rightarrow> string option" where
  "example_toJSON d = Some d"

definition example_project :: "string ProjectInfo" where
  "example_project =
     \<lparr>p_id = ''64f0c1'', name = ''LCLS Machine Configuration Database'',
      description = ''master'', owner = ''alice'', editors = [''bob''],
      creation_time = TimeWire ''2024-01-01T00:00:00'', edit_time = None,
      status = Submitted, approvers = Some [''carol'', ''dave''], approved_by = None,
      approved_time = None, submitted_time = Some (TimeWire ''2024-02-01T00:00:00''),
      submitter = Some ''alice'', notes_p = None\<rparr>"

definition example_diff :: "int fftDiffBackend" where
  "example_diff = \<lparr>diff = True, key = ''abc123.fft.xyz'', my = DiffNum 1, ot = DiffStr []\<rparr>"

definition example_device :: "(example_number, string) ProjectDeviceDetailsBackend" where
  "example_device =
     \<lparr>tc_part_no = ''PN-1'', comments = ''upstream'', state = ''ReadyForInstallation'',
      nom_ang_x = Str [], nom_ang_y = Str [], nom_ang_z = Str [],
      nom_dim_x = Num (Fin 1), nom_dim_y = Num NegZero, nom_dim_z = Num PosInfinity,
      nom_loc_x = Str ''12'', nom_loc_y = Undefined, nom_loc_z = Str [],
      ray_trace = Num (Fin 0),
      discussion = Some [],
      fft = \<lparr>fft_id = ''abc123'', fft_fc = ''fc1'', fft_fg = ''fg1''\<rparr>\<rparr>"

definition example_frontend_device :: "(example_number, string) ProjectDeviceDetails" where
  "example_frontend_device =
     deviceDetailsBackendToFrontend example_parseFloat example_newDate example_device"

definition example_glob_test :: "string \<Rightarrow> string \<Rightarrow> bool" where
  "example_glob_test pattern text = (pattern = text)"

definition example_fg_desc :: "(example_number, string) ProjectDeviceDetails \<Rightarrow> string" where
  "example_fg_desc d = fg d"

definition example_array_sort ::
  "string \<Rightarrow> bool \<Rightarrow> (example_number, string) ProjectDeviceDetails list
     \<Rightarrow> (example_number, string) ProjectDeviceDetails list" where
  "example_array_sort col desc ds = (if desc then rev ds else ds)"

definition example_page :: "(example_number, string) page_state" where
  "example_page =
     \<lparr>isLoading = False, fftDataLoadingError = ''Failed to load device data: Timeout'',
      fftData = [example_frontend_device], fftDataDisplay = [example_frontend_device],
      fcFilter = [], fgFilter = [], stateFilter = [],
      sortedByColumn_column = ''fc'', sortedByColumn_sortDesc = False\<rparr>"

definition example_submit_state :: "string submit_state" where
  "example_submit_state =
     \<lparr>loading = False, loadError = [],
      project = Some (example_project\<lparr>status := Development\<rparr>),
      diff_s = Some \<lparr>diff_a = Some (example_project\<lparr>status := Development\<rparr>)\<rparr>,
      loggedInUser = ''alice'',
      allApprovers = [''carol'', ''dave''], selectedApprovers = [],
      allEditors = [''bob'', ''erin''], selectedEditors = [''bob''],
      superApprovers = [], submittingForm = False, submitError = [], editEditorsError = []\<rparr>"



definition example_submit_state_prev :: "string submit_state_prev" where
  "example_submit_state_prev =
     \<lparr>loading_prev = False, loadError_prev = [],
      project_prev = Some (example_project\<lparr>status := Development\<rparr>),
      diff_prev = Some \<lparr>diff_a = Some (example_project\<lparr>status := Development\<rparr>)\<rparr>,
      allApprovers_prev = [''carol'', ''dave''],
      currentApprover_prev = ''Please select an approver...'',
      selectedApprovers_prev = [],
      superApprovers_prev = [], submittingForm_prev = False, submitError_prev = []\<rparr>"

section \<open>Properties of the project model\<close>

text \<open>
  Claim C1. \<open>isUserAProjectApprover\<close> holds exactly when the project is submitted and the
  user is in its list of approvers or the username is empty. So it fails for every user
  of a project in development, and it holds for a listed approver of a submitted project.
\<close>

theorem isUserAProjectApprover_spec:
  "(isUserAProjectApprover prj username \<longleftrightarrow>
      status prj = Submitted \<and>
      ((\<exists>as. approvers prj = Some as \<and> username \<in> set as) \<or> username = []))
   \<and> (status prj = Development \<longrightarrow> \<not> isUserAProjectApprover prj username)
   \<and> (status prj = Submitted \<and> approvers prj = Some as \<and> username \<in> set as
        \<longrightarrow> isUserAProjectApprover prj username)"
  by (auto simp: isUserAProjectApprover_def isProjectSubmitted_def approvers_includes_def
           split: option.splits)

theorem isUserAProjectApprover_spec_witness:
  "isUserAProjectApprover example_project ''carol''
   \<and> \<not> isUserAProjectApprover (example_project\<lparr>status := Development\<rparr>) ''carol''
   \<and> \<not> isUserAProjectApprover example_project ''bob''"
  using isUserAProjectApprover_spec [of example_project "''carol''" "[''carol'', ''dave'']"]
        isUserAProjectApprover_spec
          [of "example_project\<lparr>status := Development\<rparr>" "''carol''" "[]"]
        isUserAProjectApprover_spec [of example_project "''bob''" "[]"]
  by (simp add: example_project_def)

lemma collect_projects_filter:
  "collect_projects ps pArr =
     pArr @ filter (\<lambda>p. name p = MASTER_PROJECT_NAME \<longrightarrow> status p = Approved) ps"
  by (induction ps arbitrary: pArr) (auto simp: isProjectApproved_def)

lemma transform_name [simp]: "name (transformProjectForFrontendUse nd p) = name p"
  by (simp add: transformProjectForFrontendUse_def)

lemma transform_status [simp]: "status (transformProjectForFrontendUse nd p) = status p"
  by (simp add: transformProjectForFrontendUse_def)

text \<open>
  Claim C5. Of the projects the backend returns, \<open>fetchAllProjectsInfo\<close> keeps the one
  named as the master project exactly when it is approved, and keeps every project of
  another name; the kept projects come back in order, transformed for the frontend.
\<close>

theorem fetchAllProjectsInfo_master_visibility:
  "fetchAllProjectsInfo newDate (Inr projects) =
     Inr (map (transformProjectForFrontendUse newDate)
            (filter (\<lambda>p. name p = MASTER_PROJECT_NAME \<longrightarrow> status p = Approved) projects))
   \<and> (\<forall>p \<in> set projects.
        (\<exists>ps. fetchAllProjectsInfo newDate (Inr projects) = Inr ps
              \<and> transformProjectForFrontendUse newDate p \<in> set ps)
        \<longleftrightarrow> (name p = MASTER_PROJECT_NAME \<longrightarrow> status p = Approved))"
proof -
  let ?keep = "\<lambda>p::'a ProjectInfo. name p = MASTER_PROJECT_NAME \<longrightarrow> status p = Approved"
  let ?t = "transformProjectForFrontendUse newDate"
  have eq: "fetchAllProjectsInfo newDate (Inr projects) = Inr (map ?t (filter ?keep projects))"
    by (simp add: fetchAllProjectsInfo_def collect_projects_filter)
  have "(?t p \<in> set (map ?t (filter ?keep projects))) \<longleftrightarrow> ?keep p" if "p \<in> set projects" for p
  proof
    assume "?t p \<in> set (map ?t (filter ?keep projects))"
    then obtain q where q: "q \<in> set projects" "?keep q" "?t q = ?t p" by auto
    from q(3) have "name q = name p" "status q = status p"
      by (metis transform_name, metis transform_status)
    with q(2) show "?keep p" by simp
  next
    assume "?keep p"
    with that show "?t p \<in> set (map ?t (filter ?keep projects))" by auto
  qed
  with eq show ?thesis by simp
qed

theorem fetchAllProjectsInfo_master_visibility_witness:
  "fetchAllProjectsInfo example_newDate
     (Inr [example_project, example_project\<lparr>name := ''lcls-dev''\<rparr>,
           example_project\<lparr>status := Approved\<rparr>]) =
   Inr (map (transformProjectForFrontendUse example_newDate)
          [example_project\<lparr>name := ''lcls-dev''\<rparr>, example_project\<lparr>status := Approved\<rparr>])"
  using fetchAllProjectsInfo_master_visibility
    [of example_newDate "[example_project, example_project\<lparr>name := ''lcls-dev''\<rparr>,
           example_project\<lparr>status := Approved\<rparr>]"]
  by (simp add: example_project_def MASTER_PROJECT_NAME_def)

text \<open>
  Claim C10. With a non-empty project owner supplied, \<open>fetchProjectApprovers\<close> returns
  the backend's list without the entries equal to the owner, so the owner is not among
  the result; with no owner supplied it returns the backend's list as it is.
\<close>

theorem fetchProjectApprovers_removes_owner:
  "(projectOwner \<noteq> [] \<longrightarrow>
      fetchProjectApprovers (Inr backend_list) (Some projectOwner) =
        Inr (filter (\<lambda>u. u \<noteq> projectOwner) backend_list)
      \<and> (\<forall>xs. fetchProjectApprovers (Inr backend_list) (Some projectOwner) = Inr xs
               \<longrightarrow> projectOwner \<notin> set xs))
   \<and> fetchProjectApprovers (Inr backend_list) None = Inr backend_list"
  by (simp add: fetchProjectApprovers_def)

theorem fetchProjectApprovers_removes_owner_witness:
  "fetchProjectApprovers (Inr [''alice'', ''bob'', ''alice'', ''carol'']) (Some ''alice'')
     = Inr [''bob'', ''carol'']"
  using fetchProjectApprovers_removes_owner
          [of "''alice''" "[''alice'', ''bob'', ''alice'', ''carol'']"]
  by simp

section \<open>Properties of the diff keys\<close>

lemma split_str_not_Nil: "split_str sep cs \<noteq> []"
  by (induction cs) (auto split: list.splits)

lemma join_split_str: "join_str [sep] (split_str sep cs) = cs"
proof (induction cs)
  case Nil
  show ?case by simp
next
  case (Cons c cs)
  obtain w ws where sp: "split_str sep cs = w # ws"
    using split_str_not_Nil [of sep cs] by (cases "split_str sep cs") auto
  show ?case
  proof (cases "c = sep")
    case True
    with Cons sp show ?thesis by simp
  next
    case False
    with Cons sp show ?thesis by (cases ws) auto
  qed
qed

lemma split_str_first:
  "split_str sep cs =
     takeWhile (\<lambda>c. c \<noteq> sep) cs #
       (if dropWhile (\<lambda>c. c \<noteq> sep) cs = [] then []
        else split_str sep (drop 1 (dropWhile (\<lambda>c. c \<noteq> sep) cs)))"
  by (induction cs) (auto split: list.splits)

lemma join_rest:
  assumes "split_str sep cs = i # rest"
  shows "i = takeWhile (\<lambda>c. c \<noteq> sep) cs"
    and "join_str [sep] rest = drop 1 (dropWhile (\<lambda>c. c \<noteq> sep) cs)"
proof -
  let ?tail = "dropWhile (\<lambda>c. c \<noteq> sep) cs"
  from assms split_str_first [of sep cs]
  have i: "i = takeWhile (\<lambda>c. c \<noteq> sep) cs"
    and rest: "rest = (if ?tail = [] then [] else split_str sep (drop 1 ?tail))"
    by simp_all
  show "i = takeWhile (\<lambda>c. c \<noteq> sep) cs" by (rule i)
  show "join_str [sep] rest = drop 1 ?tail"
  proof (cases "?tail = []")
    case True
    from rest have "rest = []" unfolding True by simp
    then show ?thesis unfolding True by simp
  next
    case False
    with rest show ?thesis by (simp only: if_False join_split_str)
  qed
qed

lemma after_first_dot_Nil:
  "dropWhile (\<lambda>c. c \<noteq> CHR ''.'') k = [] \<Longrightarrow> after_first_dot k = []"
  unfolding after_first_dot_def by (erule ssubst) simp

lemma first_dot_decomposition:
  assumes "after_first_dot k \<noteq> []"
  shows "k = before_first_dot k @ ''.'' @ after_first_dot k"
    and "CHR ''.'' \<notin> set (before_first_dot k)"
proof -
  let ?P = "\<lambda>c. c \<noteq> CHR ''.''"
  have ne: "dropWhile ?P k \<noteq> []"
  proof
    assume "dropWhile ?P k = []"
    then have "after_first_dot k = []" by (rule after_first_dot_Nil)
    with assms show False by simp
  qed
  then have "\<not> ?P (hd (dropWhile ?P k))" by (rule hd_dropWhile)
  with ne have "dropWhile ?P k = CHR ''.'' # drop 1 (dropWhile ?P k)"
    by (cases "dropWhile ?P k") auto
  then have "takeWhile ?P k @ dropWhile ?P k = takeWhile ?P k @ ''.'' @ drop 1 (dropWhile ?P k)"
    by simp
  then show "k = before_first_dot k @ ''.'' @ after_first_dot k"
    by (simp add: before_first_dot_def after_first_dot_def)
  show "CHR ''.'' \<notin> set (before_first_dot k)"
    unfolding before_first_dot_def using set_takeWhileD by fastforce
qed

lemma no_dot_no_field:
  assumes "CHR ''.'' \<notin> set k"
  shows "after_first_dot k = []"
proof -
  from assms have "dropWhile (\<lambda>c. c \<noteq> CHR ''.'') k = []" by auto
  then show ?thesis by (rule after_first_dot_Nil)
qed

lemma parse_general:
  "parseFftFieldsFromDiff x =
     (if after_first_dot (key x) = [] then Inl (invalid_diff_key (key x))
      else Inr \<lparr>id_of = before_first_dot (key x), field = after_first_dot (key x)\<rparr>)"
proof -
  obtain i rest where sp: "split_str (CHR ''.'') (key x) = i # rest"
    using split_str_not_Nil [of "CHR ''.''" "key x"]
    by (cases "split_str (CHR ''.'') (key x)") auto
  from join_rest [OF sp] sp show ?thesis
    by (simp add: parseFftFieldsFromDiff_def before_first_dot_def after_first_dot_def)
qed

text \<open>
  Claim C2. \<open>parseFftFieldsFromDiff\<close> splits a key at its first dot only: the device id
  is the part before the first dot and the field name is all that follows it, dots
  included, so that the key is the id, a dot and the field name. It throws exactly when
  nothing follows the first dot, which includes every key without a dot. The keys
  \<open>abc123.nom_loc_x\<close> and \<open>abc123.fft.xyz\<close> give \<open>(abc123, nom_loc_x)\<close> and
  \<open>(abc123, fft.xyz)\<close>.
\<close>

theorem parseFftFieldsFromDiff_splits_on_first_dot:
  "parseFftFieldsFromDiff d =
     (if after_first_dot (key d) = [] then Inl (invalid_diff_key (key d))
      else Inr \<lparr>id_of = before_first_dot (key d), field = after_first_dot (key d)\<rparr>)
   \<and> (\<forall>r. parseFftFieldsFromDiff d = Inr r \<longrightarrow>
          key d = id_of r @ ''.'' @ field r \<and> CHR ''.'' \<notin> set (id_of r) \<and> field r \<noteq> [])
   \<and> ((\<exists>e. parseFftFieldsFromDiff d = Inl e) \<longleftrightarrow> after_first_dot (key d) = [])
   \<and> (CHR ''.'' \<notin> set (key d) \<longrightarrow> (\<exists>e. parseFftFieldsFromDiff d = Inl e))
   \<and> parseFftFieldsFromDiff (d\<lparr>key := ''abc123.nom_loc_x''\<rparr>)
        = Inr \<lparr>id_of = ''abc123'', field = ''nom_loc_x''\<rparr>
   \<and> parseFftFieldsFromDiff (d\<lparr>key := ''abc123.fft.xyz''\<rparr>)
        = Inr \<lparr>id_of = ''abc123'', field = ''fft.xyz''\<rparr>"
proof -
  have 1: "parseFftFieldsFromDiff d =
     (if after_first_dot (key d) = [] then Inl (invalid_diff_key (key d))
      else Inr \<lparr>id_of = before_first_dot (key d), field = after_first_dot (key d)\<rparr>)"
    by (rule parse_general)
  have 2: "key d = id_of r @ ''.'' @ field r \<and> CHR ''.'' \<notin> set (id_of r) \<and> field r \<noteq> []"
    if "parseFftFieldsFromDiff d = Inr r" for r
  proof -
    from that 1 have ne: "after_first_dot (key d) \<noteq> []"
      and r: "r = \<lparr>id_of = before_first_dot (key d), field = after_first_dot (key d)\<rparr>"
      by (auto split: if_splits)
    from first_dot_decomposition [OF ne] ne r show ?thesis by simp
  qed
  have 3: "(\<exists>e. parseFftFieldsFromDiff d = Inl e) \<longleftrightarrow> after_first_dot (key d) = []"
    by (simp add: 1)
  have 4: "CHR ''.'' \<notin> set (key d) \<longrightarrow> (\<exists>e. parseFftFieldsFromDiff d = Inl e)"
    by (simp add: 3 no_dot_no_field)
  have e1: "after_first_dot ''abc123.nom_loc_x'' = ''nom_loc_x''"
    and e2: "before_first_dot ''abc123.nom_loc_x'' = ''abc123''"
    and e3: "after_first_dot ''abc123.fft.xyz'' = ''fft.xyz''"
    and e4: "before_first_dot ''abc123.fft.xyz'' = ''abc123''"
    by (simp_all add: before_first_dot_def after_first_dot_def)
  have 5: "parseFftFieldsFromDiff (d\<lparr>key := ''abc123.nom_loc_x''\<rparr>)
        = Inr \<lparr>id_of = ''abc123'', field = ''nom_loc_x''\<rparr>"
    by (simp add: parse_general e1 e2)
  have 6: "parseFftFieldsFromDiff (d\<lparr>key := ''abc123.fft.xyz''\<rparr>)
        = Inr \<lparr>id_of = ''abc123'', field = ''fft.xyz''\<rparr>"
    by (simp add: parse_general e3 e4)
  from 1 2 3 4 5 6 show ?thesis by blast
qed

theorem parseFftFieldsFromDiff_splits_on_first_dot_witness:
  "parseFftFieldsFromDiff example_diff = Inr \<lparr>id_of = ''abc123'', field = ''fft.xyz''\<rparr>
   \<and> (\<exists>e. parseFftFieldsFromDiff (example_diff\<lparr>key := ''abc123''\<rparr>) = Inl e)
   \<and> (\<exists>e. parseFftFieldsFromDiff (example_diff\<lparr>key := ''abc123.''\<rparr>) = Inl e)"
  using parseFftFieldsFromDiff_splits_on_first_dot [of example_diff]
        parseFftFieldsFromDiff_splits_on_first_dot [of "example_diff\<lparr>key := ''abc123''\<rparr>"]
        parseFftFieldsFromDiff_splits_on_first_dot [of "example_diff\<lparr>key := ''abc123.''\<rparr>"]
  by (simp add: example_diff_def before_first_dot_def after_first_dot_def)

section \<open>Properties of the device transformation\<close>

lemma get_set_field:
  "get_field k (set_field k' v d) = (if k = k' then v else get_field k d)"
  by (cases k; cases k'; simp)

lemma normalize_keys_get:
  "distinct ks \<Longrightarrow>
   get_field k (normalize_keys pf ks d) =
     (if k \<in> set ks then as_input (numberOrDefault pf (get_field k d) None) else get_field k d)"
proof (induction ks arbitrary: d)
  case Nil
  show ?case by simp
next
  case (Cons a ks)
  then show ?case by (simp add: get_set_field)
qed

lemma numeric_keys_all: "k \<in> set ProjectDeviceDetailsNumericKeys"
  by (cases k) (simp_all add: ProjectDeviceDetailsNumericKeys_def ProjectDevicePositionKeys_def)

lemma numeric_keys_distinct: "distinct ProjectDeviceDetailsNumericKeys"
  by (simp add: ProjectDeviceDetailsNumericKeys_def ProjectDevicePositionKeys_def)

lemma get_field_state_update [simp]: "get_field k (d\<lparr>state := s\<rparr>) = get_field k d"
  by (cases k) simp_all

lemma get_field_discussion_update [simp]: "get_field k (d\<lparr>discussion := s\<rparr>) = get_field k d"
  by (cases k) simp_all

lemma transform_get_field:
  "get_field k (transformProjectDeviceDetails pf nd d) =
     as_input (numberOrDefault pf (get_field k d) None)"
  by (simp add: transformProjectDeviceDetails_def Let_def normalize_keys_get
        numeric_keys_all numeric_keys_distinct)

text \<open>
  Claim C3. After \<open>transformProjectDeviceDetails\<close>, each of the ten numeric fields
  (\<open>k\<close> ranges over their keys) that arrived as the empty string is undefined, and is
  no number, zero included; one that arrived as a non-empty string holds the number
  parsed from it; one that arrived as a number holds that number.
\<close>

theorem transformProjectDeviceDetails_numeric_fields:
  "(get_field k device = Str [] \<longrightarrow>
      get_field k (transformProjectDeviceDetails parseFloat newDate device) = Undefined
      \<and> (\<forall>z. get_field k (transformProjectDeviceDetails parseFloat newDate device) \<noteq> Num z))
   \<and> (get_field k device = Str s \<and> s \<noteq> [] \<longrightarrow>
      get_field k (transformProjectDeviceDetails parseFloat newDate device) = Num (parseFloat s))
   \<and> (get_field k device = Num n \<longrightarrow>
      get_field k (transformProjectDeviceDetails parseFloat newDate device) = Num n)"
  by (simp add: transform_get_field numberOrDefault_def as_input_def)

theorem transformProjectDeviceDetails_numeric_fields_witness:
  "get_field Nom_ang_x (transformProjectDeviceDetails example_parseFloat example_newDate
                          example_device) = Undefined
   \<and> get_field Nom_loc_x (transformProjectDeviceDetails example_parseFloat example_newDate
                          example_device) = Num (Fin 12)
   \<and> get_field Ray_trace (transformProjectDeviceDetails example_parseFloat example_newDate
                          example_device) = Num (Fin 0)"
  using transformProjectDeviceDetails_numeric_fields
          [of Nom_ang_x example_device example_parseFloat example_newDate "[]" "Fin 0"]
        transformProjectDeviceDetails_numeric_fields
          [of Nom_loc_x example_device example_parseFloat example_newDate "''12''" "Fin 0"]
        transformProjectDeviceDetails_numeric_fields
          [of Ray_trace example_device example_parseFloat example_newDate "[]" "Fin 0"]
  by (simp add: example_device_def example_parseFloat_def)

text \<open>
  Claim C8. \<open>numberOrDefault\<close> with the default \<open>undefined\<close> is idempotent: applied to
  its own result, read as an input again, it gives that result, for every input
  (undefined, an empty or non-empty string, a number).
\<close>

theorem numberOrDefault_idempotent:
  "numberOrDefault parseFloat (as_input (numberOrDefault parseFloat input None)) None
     = numberOrDefault parseFloat input None"
  by (cases input) (simp_all add: numberOrDefault_def as_input_def)

theorem numberOrDefault_idempotent_witness:
  "numberOrDefault example_parseFloat
     (as_input (numberOrDefault example_parseFloat (Str []) None)) None = None
   \<and> numberOrDefault example_parseFloat
     (as_input (numberOrDefault example_parseFloat (Str ''12'') None)) None = Some (Fin 12)"
  using numberOrDefault_idempotent [of example_parseFloat "Str []"]
        numberOrDefault_idempotent [of example_parseFloat "Str ''12''"]
  by (simp add: numberOrDefault_def example_parseFloat_def)

section \<open>Properties of the round trip of a device\<close>

lemma key_name_inj: "key_name a = key_name b \<longleftrightarrow> a = b"
  by (cases a; cases b; simp)

lemma key_name_not_other:
  "key_name k \<noteq> ''tc_part_no''" "key_name k \<noteq> ''comments''" "key_name k \<noteq> ''state''"
  "key_name k \<noteq> ''fft''" "key_name k \<noteq> ''id''" "key_name k \<noteq> ''fc''" "key_name k \<noteq> ''fg''"
  "key_name k \<noteq> ''discussion''"
  by (cases k; simp)+

lemma fold_upd_other:
  "\<forall>k \<in> set ks. key_name k \<noteq> p \<Longrightarrow>
   fold (\<lambda>k m. m(key_name k \<mapsto> f k)) ks m p = m p"
  by (induction ks arbitrary: m) auto

lemma wire_numeric_apply:
  "wire_numeric w a m p =
     (if p = key_name a \<and> get_field a w \<noteq> Undefined then Some (numval_js (get_field a w))
      else m p)"
  by (cases "get_field a w") (simp_all add: wire_numeric_def)

lemma fold_wire_other:
  "\<forall>k \<in> set ks. key_name k \<noteq> p \<Longrightarrow> fold (wire_numeric w) ks m p = m p"
  by (induction ks arbitrary: m) (auto simp: wire_numeric_apply)

lemma fold_upd_numeric:
  "fold (\<lambda>k m. m(key_name k \<mapsto> f k)) ks m (key_name k) =
     (if k \<in> set ks then Some (f k) else m (key_name k))"
  by (induction ks arbitrary: m) (auto simp: key_name_inj)

lemma fold_wire_numeric:
  "fold (wire_numeric w) ks m (key_name k) =
     (if k \<in> set ks \<and> get_field k w \<noteq> Undefined then Some (numval_js (get_field k w))
      else m (key_name k))"
  by (induction ks arbitrary: m) (auto simp: wire_numeric_apply key_name_inj)

lemma frontend_object_numeric:
  "frontend_object d (key_name k) = Some (numval_js (get_field k d))"
  by (simp add: frontend_object_def fold_upd_numeric numeric_keys_all)

lemma wire_object_numeric:
  "wire_object w (key_name k) =
     (if get_field k w = Undefined then None else Some (numval_js (get_field k w)))"
  by (simp add: wire_object_def fold_wire_numeric numeric_keys_all with_discussion_def
        key_name_not_other split: option.splits)

lemma frontend_object_other:
  "\<forall>k. key_name k \<noteq> p \<Longrightarrow>
   frontend_object d p =
     with_discussion (discussion d)
          [''tc_part_no'' \<mapsto> JStr (tc_part_no d),
           ''comments'' \<mapsto> JStr (comments d),
           ''state'' \<mapsto> JStr (state d),
           ''id'' \<mapsto> JStr (id_dev d), ''fc'' \<mapsto> JStr (fc d), ''fg'' \<mapsto> JStr (fg d)] p"
  unfolding frontend_object_def by (rule fold_upd_other) simp

lemma wire_object_other:
  "\<forall>k. key_name k \<noteq> p \<Longrightarrow>
   wire_object w p =
     with_discussion (discussion w)
          [''fft'' \<mapsto> JObj [''_id'' \<mapsto> JStr (fft_id (fft w)), ''fc'' \<mapsto> JStr (fft_fc (fft w)),
                            ''fg'' \<mapsto> JStr (fft_fg (fft w))],
           ''tc_part_no'' \<mapsto> JStr (tc_part_no w),
           ''comments'' \<mapsto> JStr (comments w),
           ''state'' \<mapsto> JStr (state w)] p"
  unfolding wire_object_def by (rule fold_wire_other) simp

lemma set_field_other:
  "tc_part_no (set_field k v d) = tc_part_no d"
  "comments (set_field k v d) = comments d"
  "state (set_field k v d) = state d"
  "discussion (set_field k v d) = discussion d"
  by (cases k; simp)+

lemma set_field_ids:
  "id_dev (set_field k v d) = id_dev d"
  "fc (set_field k v d) = fc d"
  "fg (set_field k v d) = fg d"
  by (cases k; simp)+

lemma normalize_keys_other:
  "tc_part_no (normalize_keys pf ks d) = tc_part_no d"
  "comments (normalize_keys pf ks d) = comments d"
  "state (normalize_keys pf ks d) = state d"
  "discussion (normalize_keys pf ks d) = discussion d"
  by (induction ks arbitrary: d) (simp_all add: set_field_other)

lemma normalize_keys_ids:
  "id_dev (normalize_keys pf ks d) = id_dev d"
  "fc (normalize_keys pf ks d) = fc d"
  "fg (normalize_keys pf ks d) = fg d"
  by (induction ks arbitrary: d) (simp_all add: set_field_ids)

lemma backendToFrontend_fields:
  "tc_part_no (deviceDetailsBackendToFrontend pf nd w) = tc_part_no w"
  "comments (deviceDetailsBackendToFrontend pf nd w) = comments w"
  "state (deviceDetailsBackendToFrontend pf nd w) = state_name (fromString (state w))"
  "discussion (deviceDetailsBackendToFrontend pf nd w) = convert_discussion nd (discussion w)"
  "id_dev (deviceDetailsBackendToFrontend pf nd w) = fft_id (fft w)"
  "fc (deviceDetailsBackendToFrontend pf nd w) = fft_fc (fft w)"
  "fg (deviceDetailsBackendToFrontend pf nd w) = fft_fg (fft w)"
  by (simp_all add: deviceDetailsBackendToFrontend_def transformProjectDeviceDetails_def Let_def
        normalize_keys_other normalize_keys_ids)

lemma backendToFrontend_numeric:
  "get_field k (deviceDetailsBackendToFrontend pf nd w) =
     as_input (numberOrDefault pf (get_field k w) None)"
  unfolding deviceDetailsBackendToFrontend_def Let_def transform_get_field
  by (cases k) simp_all

lemma round_trip_other:
  assumes "\<forall>k. key_name k \<noteq> p" and "p \<noteq> ''discussion''"
  shows "round_trip parseFloat newDate toJSON numberToJSON w p =
        map_option (written toJSON numberToJSON)
          ([''tc_part_no'' \<mapsto> JStr (tc_part_no w),
            ''comments'' \<mapsto> JStr (comments w),
            ''state'' \<mapsto> JStr (state_name (fromString (state w))),
            ''id'' \<mapsto> JStr (fft_id (fft w)), ''fc'' \<mapsto> JStr (fft_fc (fft w)),
            ''fg'' \<mapsto> JStr (fft_fg (fft w))] p)"
  using assms
  by (simp add: round_trip_def sync_body_def frontend_object_other backendToFrontend_fields
        with_discussion_def split: option.splits)

lemma wire_object_plain:
  assumes "\<forall>k. key_name k \<noteq> p" and "p \<noteq> ''discussion''" and "p \<noteq> ''fft''"
  shows "wire_object w p =
          [''tc_part_no'' \<mapsto> JStr (tc_part_no w),
           ''comments'' \<mapsto> JStr (comments w),
           ''state'' \<mapsto> JStr (state w)] p"
  using assms by (simp add: wire_object_other with_discussion_def split: option.splits)

lemma round_trip_numeric:
  "round_trip parseFloat newDate toJSON numberToJSON w (key_name k) =
      Some (written toJSON numberToJSON
              (numval_js (as_input (numberOrDefault parseFloat (get_field k w) None))))"
  by (simp add: round_trip_def sync_body_def frontend_object_numeric backendToFrontend_numeric)

lemma round_trip_state:
  "round_trip parseFloat newDate toJSON numberToJSON w ''state''
     = Some (JStr (state_name (fromString (state w))))"
  by (simp add: round_trip_other key_name_not_other)

lemma wire_object_state: "wire_object w ''state'' = Some (JStr (state w))"
  by (simp add: wire_object_plain key_name_not_other)

lemma fromString_ReadyForInstallation:
  "state_name (fromString ''ReadyForInstallation'') = ''Ready For Installation''"
  by (simp add: fromString_def allStates_def Conceptual_def Planned_def ReadyForInstallation_def)

text \<open>
  Claim C9, as amended. Writing the deserialized record reproduces the value of the
  wire record in the fields \<open>tc_part_no\<close> and \<open>comments\<close> and in every numeric field
  that arrived as a number that is written back as itself (a finite number other than
  negative zero); a numeric field that arrived as the empty string is written as the
  empty string, as it arrived. A numeric field that arrived as a number that is not
  finite is written as \<open>null\<close>, and in general a number is written as the number its
  text denotes. The state is written as the display name of the state that
  \<open>DeviceState.fromString\<close> finds, and the nested \<open>fft\<close> is not written: its \<open>_id\<close>,
  \<open>fc\<close> and \<open>fg\<close> are written as \<open>id\<close>, \<open>fc\<close> and \<open>fg\<close> of the record itself.
\<close>

theorem round_trip_fields:
  "round_trip parseFloat newDate toJSON numberToJSON w ''tc_part_no'' = wire_object w ''tc_part_no''
   \<and> round_trip parseFloat newDate toJSON numberToJSON w ''comments'' = wire_object w ''comments''
   \<and> (get_field k w = Str [] \<longrightarrow>
        round_trip parseFloat newDate toJSON numberToJSON w (key_name k) = Some (JStr [])
        \<and> wire_object w (key_name k) = Some (JStr []))
   \<and> (get_field k w = Num n \<and> numberToJSON n = Some n \<longrightarrow>
        round_trip parseFloat newDate toJSON numberToJSON w (key_name k) = Some (JNum n)
        \<and> wire_object w (key_name k) = Some (JNum n))
   \<and> (get_field k w = Num n \<and> numberToJSON n = Some m \<longrightarrow>
        round_trip parseFloat newDate toJSON numberToJSON w (key_name k) = Some (JNum m)
        \<and> wire_object w (key_name k) = Some (JNum n))
   \<and> (get_field k w = Num n \<and> numberToJSON n = None \<longrightarrow>
        round_trip parseFloat newDate toJSON numberToJSON w (key_name k) = Some JNull
        \<and> wire_object w (key_name k) = Some (JNum n))
   \<and> round_trip parseFloat newDate toJSON numberToJSON w ''state''
        = Some (JStr (state_name (fromString (state w))))
   \<and> round_trip parseFloat newDate toJSON numberToJSON w ''fft'' = None
   \<and> round_trip parseFloat newDate toJSON numberToJSON w ''id'' = Some (JStr (fft_id (fft w)))
   \<and> round_trip parseFloat newDate toJSON numberToJSON w ''fc'' = Some (JStr (fft_fc (fft w)))
   \<and> round_trip parseFloat newDate toJSON numberToJSON w ''fg'' = Some (JStr (fft_fg (fft w)))"
proof -
  have 1: "round_trip parseFloat newDate toJSON numberToJSON w ''tc_part_no''
             = wire_object w ''tc_part_no''"
    by (simp add: round_trip_other wire_object_plain key_name_not_other)
  have 2: "round_trip parseFloat newDate toJSON numberToJSON w ''comments''
             = wire_object w ''comments''"
    by (simp add: round_trip_other wire_object_plain key_name_not_other)
  have 3: "get_field k w = Str [] \<longrightarrow>
        round_trip parseFloat newDate toJSON numberToJSON w (key_name k) = Some (JStr [])
        \<and> wire_object w (key_name k) = Some (JStr [])"
    by (simp add: round_trip_numeric wire_object_numeric numberOrDefault_def as_input_def)
  have 4: "get_field k w = Num n \<and> numberToJSON n = Some n \<longrightarrow>
        round_trip parseFloat newDate toJSON numberToJSON w (key_name k) = Some (JNum n)
        \<and> wire_object w (key_name k) = Some (JNum n)"
    by (simp add: round_trip_numeric wire_object_numeric numberOrDefault_def as_input_def)
  have 5: "get_field k w = Num n \<and> numberToJSON n = Some m \<longrightarrow>
        round_trip parseFloat newDate toJSON numberToJSON w (key_name k) = Some (JNum m)
        \<and> wire_object w (key_name k) = Some (JNum n)"
    by (simp add: round_trip_numeric wire_object_numeric numberOrDefault_def as_input_def)
  have 6: "get_field k w = Num n \<and> numberToJSON n = None \<longrightarrow>
        round_trip parseFloat newDate toJSON numberToJSON w (key_name k) = Some JNull
        \<and> wire_object w (key_name k) = Some (JNum n)"
    by (simp add: round_trip_numeric wire_object_numeric numberOrDefault_def as_input_def)
  have 7: "round_trip parseFloat newDate toJSON numberToJSON w ''state''
        = Some (JStr (state_name (fromString (state w))))"
    by (rule round_trip_state)
  have 8: "round_trip parseFloat newDate toJSON numberToJSON w ''fft'' = None"
    by (simp add: round_trip_other key_name_not_other)
  have 9: "round_trip parseFloat newDate toJSON numberToJSON w ''id'' = Some (JStr (fft_id (fft w)))"
    "round_trip parseFloat newDate toJSON numberToJSON w ''fc'' = Some (JStr (fft_fc (fft w)))"
    "round_trip parseFloat newDate toJSON numberToJSON w ''fg'' = Some (JStr (fft_fg (fft w)))"
    by (simp_all add: round_trip_other key_name_not_other)
  from 1 2 3 4 5 6 7 8 9 show ?thesis by (intro conjI)
qed

theorem round_trip_fields_witness:
  "round_trip example_parseFloat example_newDate example_toJSON example_numberToJSON
     example_device ''nom_ang_x'' = Some (JStr [])
   \<and> wire_object example_device ''nom_ang_x'' = Some (JStr [])
   \<and> round_trip example_parseFloat example_newDate example_toJSON example_numberToJSON
       example_device ''nom_dim_x'' = Some (JNum (Fin 1))
   \<and> round_trip example_parseFloat example_newDate example_toJSON example_numberToJSON
       example_device ''nom_dim_y'' = Some (JNum (Fin 0))
   \<and> wire_object example_device ''nom_dim_y'' = Some (JNum NegZero)
   \<and> round_trip example_parseFloat example_newDate example_toJSON example_numberToJSON
       example_device ''nom_dim_z'' = Some JNull
   \<and> wire_object example_device ''nom_dim_z'' = Some (JNum PosInfinity)
   \<and> round_trip example_parseFloat example_newDate example_toJSON example_numberToJSON
       example_device ''fft'' = None"
  using round_trip_fields
          [of example_parseFloat example_newDate example_toJSON example_numberToJSON
              example_device Nom_ang_x "Fin 0" "Fin 0"]
        round_trip_fields
          [of example_parseFloat example_newDate example_toJSON example_numberToJSON
              example_device Nom_dim_x "Fin 1" "Fin 1"]
        round_trip_fields
          [of example_parseFloat example_newDate example_toJSON example_numberToJSON
              example_device Nom_dim_y NegZero "Fin 0"]
        round_trip_fields
          [of example_parseFloat example_newDate example_toJSON example_numberToJSON
              example_device Nom_dim_z PosInfinity "Fin 0"]
  by (simp add: example_device_def)

text \<open>
  Counterexample to C9 before its amendment: the example device arrives with the state
  \<open>ReadyForInstallation\<close> and is written with the state \<open>Ready For Installation\<close>.
\<close>

theorem round_trip_counterexample:
  "round_trip example_parseFloat example_newDate example_toJSON example_numberToJSON
     example_device ''state''
     \<noteq> wire_object example_device ''state''"
proof -
  have st: "state example_device = ''ReadyForInstallation''"
    by (simp add: example_device_def)
  have "round_trip example_parseFloat example_newDate example_toJSON example_numberToJSON
          example_device ''state''
     = Some (JStr ''Ready For Installation'')"
    by (simp only: round_trip_state st fromString_ReadyForInstallation)
  moreover have "wire_object example_device ''state'' = Some (JStr ''ReadyForInstallation'')"
    by (simp only: wire_object_state st)
  ultimately show ?thesis by simp
qed

section \<open>Properties of the pages\<close>

lemma apply_table_filters_empty:
  "fftData st = [] \<Longrightarrow>
   apply_table_filters glob_test fg_desc array_sort st = st\<lparr>fftDataDisplay := []\<rparr>"
  by (simp add: apply_table_filters_def sortDeviceDataByColumn_def)

lemma loadFFTData_error:
  "loadFFTData parseFloat newDate (Inl e) st =
     (st\<lparr>isLoading := False,
         fftDataLoadingError := ''Failed to load device data: '' @ error e,
         fftData := []\<rparr>, None)"
  by (simp add: loadFFTData_def fetchProjectFfts_def Let_def)

text \<open>
  Claim C4, as amended. When the request for the devices fails, the page settles with
  the error message \<open>Failed to load device data: \<close> followed by the error of the
  request in place of any earlier message, with the loading flag cleared, with an empty
  list of loaded devices and, by the effect on that list, an empty list of displayed
  devices, whatever was loaded and displayed before; the promise resolves to no value.
  The filters, the sort order and the other state slots of the page are as they were.
\<close>

theorem loadFFTData_error_clears_devices:
  "loadFFTData_settled parseFloat newDate glob_test fg_desc array_sort (Inl e) st =
     (st\<lparr>isLoading := False,
         fftDataLoadingError := ''Failed to load device data: '' @ error e,
         fftData := [],
         fftDataDisplay := []\<rparr>, None)"
  by (simp add: loadFFTData_settled_def loadFFTData_error apply_table_filters_empty)

theorem loadFFTData_error_clears_devices_witness:
  "fst (loadFFTData_settled example_parseFloat example_newDate example_glob_test
          example_fg_desc example_array_sort (Inl \<lparr>error = ''Not Found''\<rparr>) example_page)
     = \<lparr>isLoading = False, fftDataLoadingError = ''Failed to load device data: Not Found'',
        fftData = [], fftDataDisplay = [],
        fcFilter = [], fgFilter = [], stateFilter = [],
        sortedByColumn_column = ''fc'', sortedByColumn_sortDesc = False\<rparr>"
  using loadFFTData_error_clears_devices
          [of example_parseFloat example_newDate example_glob_test example_fg_desc
              example_array_sort "\<lparr>error = ''Not Found''\<rparr>" example_page]
  by (simp add: example_page_def)

text \<open>
  Counterexample to C4 before its amendment: a page that holds one device holds none
  after a failed request.
\<close>

theorem loadFFTData_error_counterexample:
  "fftData (fst (loadFFTData_settled example_parseFloat example_newDate example_glob_test
                   example_fg_desc example_array_sort
                   (Inl \<lparr>error = ''Not Found''\<rparr>) example_page))
     \<noteq> fftData example_page"
  by (simp add: loadFFTData_settled_def loadFFTData_error apply_table_filters_empty
        example_page_def)

lemma userCanSubmit_iff:
  "diff_project st = Some p \<Longrightarrow>
   userCanSubmitTheProject st \<longleftrightarrow> owner p = loggedInUser st \<or> loggedInUser st \<in> set (editors p)"
  by (simp add: userCanSubmitTheProject_def)




lemma view_elements_subset:
  "e \<in> set (view_elements (SubmitProjectForApproval st)) \<Longrightarrow>
   e \<in> set (editors_row st) \<or> e \<in> set (submit_row st)"
  by (auto simp: SubmitProjectForApproval_def split: if_splits)

lemma click_editors_row:
  "e \<in> set (editors_row st) \<Longrightarrow> snd (click projectId e st) \<noteq> Some (SubmitForApproval p eds apprs)"
  by (auto simp: editors_row_def click_def editButtonClicked_def split: if_splits option.splits)

lemma click_submit_row:
  "e \<in> set (submit_row st) \<Longrightarrow> snd (click projectId e st) = Some (SubmitForApproval p eds apprs) \<Longrightarrow>
   apprs = selectedApprovers st \<and> apprs \<noteq> [] \<and> userCanSubmitTheProject st"
  by (auto simp: submit_row_def click_def submitButtonClicked_def split: if_splits option.splits)

lemma submit_row_disabled:
  "e \<in> set (submit_row st) \<Longrightarrow> button_handler e = Some SubmitButtonClicked \<Longrightarrow>
   button_disabled e \<longleftrightarrow> length (selectedApprovers st) = 0"
  by (auto simp: submit_row_def split: if_splits)

lemma editors_row_handler:
  "e \<in> set (editors_row st) \<Longrightarrow> button_handler e \<noteq> Some SubmitButtonClicked"
  by (auto simp: editors_row_def split: if_splits)




text \<open>
  Claim C7. In both revisions of the page, every button that submits is disabled exactly
  when the list of selected approvers has length zero, and every request to submit that
  a click sends carries the selected approvers, a non-empty list. So for a project in
  development with no approver selected, no click sends the request.
\<close>

theorem submit_requires_approvers:
  "(\<forall>e \<in> set (view_elements (SubmitProjectForApproval st)).
      button_handler e = Some SubmitButtonClicked \<longrightarrow>
      (button_disabled e \<longleftrightarrow> length (selectedApprovers st) = 0))
   \<and> (\<forall>e \<in> set (view_elements (SubmitProjectForApproval st)). \<forall>p eds apprs.
        snd (click projectId e st) = Some (SubmitForApproval p eds apprs) \<longrightarrow>
        apprs = selectedApprovers st \<and> apprs \<noteq> [])
   \<and> (isProjectInDevelopment (project st) \<and> selectedApprovers st = [] \<longrightarrow>
        (\<forall>e \<in> set (view_elements (SubmitProjectForApproval st)). \<forall>p eds apprs.
           snd (click projectId e st) \<noteq> Some (SubmitForApproval p eds apprs)))
   \<and> (\<forall>e \<in> set (submit_row_prev sp).
        button_handler e = Some SubmitButtonClicked \<longrightarrow>
        (button_disabled e \<longleftrightarrow> length (selectedApprovers_prev sp) = 0))
   \<and> (\<forall>e \<in> set (submit_row_prev sp). \<forall>p apprs.
        snd (click_prev projectId e sp) = Some (p, apprs) \<longrightarrow>
        apprs = selectedApprovers_prev sp \<and> apprs \<noteq> [])"
proof -
  have a: "button_disabled e \<longleftrightarrow> length (selectedApprovers st) = 0"
    if "e \<in> set (view_elements (SubmitProjectForApproval st))"
      and "button_handler e = Some SubmitButtonClicked" for e
    using view_elements_subset [OF that(1)] that(2) submit_row_disabled editors_row_handler
    by blast
  have b: "apprs = selectedApprovers st \<and> apprs \<noteq> []"
    if "e \<in> set (view_elements (SubmitProjectForApproval st))"
      and "snd (click projectId e st) = Some (SubmitForApproval p eds apprs)" for e p eds apprs
    using view_elements_subset [OF that(1)] that(2) click_editors_row click_submit_row
    by blast
  have c: "snd (click projectId e st) \<noteq> Some (SubmitForApproval p eds apprs)"
    if "selectedApprovers st = []"
      and "e \<in> set (view_elements (SubmitProjectForApproval st))" for e p eds apprs
    using b [OF that(2)] that(1) by metis
  have d: "button_disabled e \<longleftrightarrow> length (selectedApprovers_prev sp) = 0"
    if "e \<in> set (submit_row_prev sp)" and "button_handler e = Some SubmitButtonClicked" for e
    using that by (auto simp: submit_row_prev_def split: if_splits)
  have e: "apprs = selectedApprovers_prev sp \<and> apprs \<noteq> []"
    if "e \<in> set (submit_row_prev sp)" and "snd (click_prev projectId e sp) = Some (p, apprs)"
    for e p apprs
    using that
    by (auto simp: submit_row_prev_def click_prev_def submitButtonClicked_prev_def
             split: if_splits option.splits)
  from a b c d e show ?thesis by blast
qed

theorem submit_requires_approvers_witness:
  "view_elements (SubmitProjectForApproval example_submit_state)
     = [Button ''Update Editors'' False False EditButtonClicked,
        Button ''Submit for Approval'' False True SubmitButtonClicked]
   \<and> snd (click ''64f0c1'' (Button ''Submit for Approval'' False True SubmitButtonClicked)
             example_submit_state) = None
   \<and> snd (click ''64f0c1'' (Button ''Submit for Approval'' False False SubmitButtonClicked)
             (example_submit_state\<lparr>selectedApprovers := [''carol'']\<rparr>))
       = Some (SubmitForApproval ''64f0c1'' [''bob''] [''carol''])
   \<and> submit_row_prev example_submit_state_prev
       = [Button ''Submit for Approval'' False True SubmitButtonClicked]
   \<and> snd (click_prev ''64f0c1'' (Button ''Submit for Approval'' False True SubmitButtonClicked)
             example_submit_state_prev) = None"
  using submit_requires_approvers
          [of example_submit_state "''64f0c1''" example_submit_state_prev]
        submit_requires_approvers
          [of "example_submit_state\<lparr>selectedApprovers := [''carol'']\<rparr>" "''64f0c1''"
              example_submit_state_prev]
  by (simp add: example_submit_state_def example_submit_state_prev_def example_project_def
        SubmitProjectForApproval_def editors_row_def submit_row_def submit_row_prev_def
        disableEditActions_def userCanSubmitTheProject_def diff_project_def
        isProjectInDevelopment_def isProjectSubmitted_def click_def click_prev_def
        submitButtonClicked_def submitButtonClicked_prev_def)

end
